theory Spec2Isabelle
  imports Complex_Main "HOL-Library.Sublist"
begin

section \<open>Exceptions and sequencing\<close>

text \<open>
  The Python exceptions the avatar pipeline can raise, as values. A computation that
  may raise returns \<open>error + 'a\<close>, with \<open>Inl\<close> the exception.
\<close>

datatype error = IndexError | ValueError | AttributeError | OverflowError | OSError | ModelError

definition bind_err :: "error + 'a \<Rightarrow> ('a \<Rightarrow> error + 'b) \<Rightarrow> error + 'b" where
  "bind_err m f = (case m of Inl e \<Rightarrow> Inl e | Inr v \<Rightarrow> f v)"

definition get_item :: "'a list \<Rightarrow> nat \<Rightarrow> error + 'a" where
  \<comment> \<open>\<open>xs[i]\<close> for a constant index \<open>i \<ge> 0\<close>: out of range raises IndexError.\<close>
  "get_item xs i = (if i < length xs then Inr (xs ! i) else Inl IndexError)"

definition py_int :: "real \<Rightarrow> int" where
  \<comment> \<open>\<open>int(x)\<close> on a float: truncation towards zero.\<close>
  "py_int r = (if 0 \<le> r then \<lfloor>r\<rfloor> else \<lceil>r\<rceil>)"

section \<open>Body measurements (image_utils.py, estimate_body_measurements)\<close>

text \<open>
  A pose landmark carries normalised coordinates; the image size is PIL's
  \<open>(width, height)\<close>. Python floats are idealised as reals.
\<close>

record landmark =
  lm_x :: real
  lm_y :: real

record measurements =
  shoulder_width :: real
  hip_width :: real
  height :: real

definition get_xy :: "landmark list \<Rightarrow> int \<times> int \<Rightarrow> nat \<Rightarrow> error + real \<times> real" where
  "get_xy landmarks image_size i =
     bind_err (get_item landmarks i)
       (\<lambda>lm. Inr (lm_x lm * real_of_int (fst image_size), lm_y lm * real_of_int (snd image_size)))"

definition array_sub :: "real \<times> real \<Rightarrow> real \<times> real \<Rightarrow> real \<times> real" where
  \<comment> \<open>\<open>np.array(a) - np.array(b)\<close> on two pairs.\<close>
  "array_sub a b = (fst a - fst b, snd a - snd b)"

definition linalg_norm :: "real \<times> real \<Rightarrow> real" where
  \<comment> \<open>\<open>np.linalg.norm\<close> of a 2-vector: the square root of the sum of squares.\<close>
  "linalg_norm v = sqrt ((fst v)\<^sup>2 + (snd v)\<^sup>2)"

definition estimate_body_measurements :: "landmark list \<Rightarrow> int \<times> int \<Rightarrow> error + measurements" where
  "estimate_body_measurements landmarks image_size =
     bind_err (get_xy landmarks image_size 11) (\<lambda>l_shoulder.
     bind_err (get_xy landmarks image_size 12) (\<lambda>r_shoulder.
     let shoulder_width = linalg_norm (array_sub l_shoulder r_shoulder) in
     bind_err (get_xy landmarks image_size 23) (\<lambda>l_hip.
     bind_err (get_xy landmarks image_size 24) (\<lambda>r_hip.
     let hip_width = linalg_norm (array_sub l_hip r_hip);
         mid_shoulder = ((fst l_shoulder + fst r_shoulder) / 2, (snd l_shoulder + snd r_shoulder) / 2) in
     bind_err (get_xy landmarks image_size 27) (\<lambda>l_ankle0.
     bind_err (get_xy landmarks image_size 28) (\<lambda>r_ankle0.
     bind_err (get_xy landmarks image_size 27) (\<lambda>l_ankle1.
     bind_err (get_xy landmarks image_size 28) (\<lambda>r_ankle1.
     let mid_ankle = ((fst l_ankle0 + fst r_ankle0) / 2, (snd l_ankle1 + snd r_ankle1) / 2);
         height = linalg_norm (array_sub mid_shoulder mid_ankle)
     in Inr \<lparr>shoulder_width = shoulder_width, hip_width = hip_width, height = height\<rparr>))))))))"

text \<open>
  The specification's reading of the same quantities: pixel-space points, the Euclidean
  distance and the midpoint of two points.
\<close>

definition pixel_point :: "landmark list \<Rightarrow> int \<times> int \<Rightarrow> nat \<Rightarrow> real \<times> real" where
  "pixel_point landmarks sz i =
     (lm_x (landmarks ! i) * real_of_int (fst sz), lm_y (landmarks ! i) * real_of_int (snd sz))"

definition euclidean_distance :: "real \<times> real \<Rightarrow> real \<times> real \<Rightarrow> real" where
  "euclidean_distance p q = sqrt ((fst p - fst q)\<^sup>2 + (snd p - snd q)\<^sup>2)"

definition midpoint2 :: "real \<times> real \<Rightarrow> real \<times> real \<Rightarrow> real \<times> real" where
  "midpoint2 p q = ((fst p + fst q) / 2, (snd p + snd q) / 2)"

definition synthetic_pose :: "landmark list" where
  \<comment> \<open>33 landmarks: shoulders at (0.4,0.3)/(0.6,0.3), ankles at (0.45,0.9)/(0.55,0.9), hips at
      (0.45,0.6)/(0.55,0.6), every other joint at the origin.\<close>
  "synthetic_pose =
     replicate 11 \<lparr>lm_x = 0, lm_y = 0\<rparr> @
     [\<lparr>lm_x = 0.4, lm_y = 0.3\<rparr>, \<lparr>lm_x = 0.6, lm_y = 0.3\<rparr>] @
     replicate 10 \<lparr>lm_x = 0, lm_y = 0\<rparr> @
     [\<lparr>lm_x = 0.45, lm_y = 0.6\<rparr>, \<lparr>lm_x = 0.55, lm_y = 0.6\<rparr>] @
     replicate 2 \<lparr>lm_x = 0, lm_y = 0\<rparr> @
     [\<lparr>lm_x = 0.45, lm_y = 0.9\<rparr>, \<lparr>lm_x = 0.55, lm_y = 0.9\<rparr>] @
     replicate 4 \<lparr>lm_x = 0, lm_y = 0\<rparr>"

section \<open>Strings and paths\<close>

text \<open>
  \<open>str.replace(old, new)\<close> replaces every occurrence of \<open>old\<close>, scanning from the left
  and continuing after each replaced occurrence. The \<open>os.path\<close> functions are those of
  \<open>posixpath\<close>, where the only separator is the slash.
\<close>

fun str_replace :: "string \<Rightarrow> string \<Rightarrow> string \<Rightarrow> string" where
  "str_replace [] old new = (if old = [] then new else [])"
| "str_replace (c # cs) old new =
     (if old = [] then new @ c # str_replace cs old new
      else if prefix old (c # cs) then new @ str_replace (drop (length old) (c # cs)) old new
      else c # str_replace cs old new)"

definition basename :: "string \<Rightarrow> string" where
  "basename p = rev (takeWhile (\<lambda>c. c \<noteq> CHR ''/'') (rev p))"

definition dirname :: "string \<Rightarrow> string" where
  "dirname p =
     (let head = rev (dropWhile (\<lambda>c. c \<noteq> CHR ''/'') (rev p))
      in if head \<noteq> [] \<and> \<not> list_all (\<lambda>c. c = CHR ''/'') head
         then rev (dropWhile (\<lambda>c. c = CHR ''/'') (rev head)) else head)"

definition path_join :: "string \<Rightarrow> string \<Rightarrow> string" where
  "path_join a b =
     (if b \<noteq> [] \<and> hd b = CHR ''/'' then b
      else if a = [] \<or> last a = CHR ''/'' then a @ b
      else a @ ''/'' @ b)"

definition splitext :: "string \<Rightarrow> string \<times> string" where
  \<comment> \<open>The extension starts at the last dot of the last component, unless that component has
      only dots before it.\<close>
  "splitext p =
     (let name = basename p;
          ext = rev (takeWhile (\<lambda>c. c \<noteq> CHR ''.'') (rev name));
          stem = take (length name - length ext - 1) name
      in if CHR ''.'' \<in> set name \<and> \<not> list_all (\<lambda>c. c = CHR ''.'') stem
         then (take (length p - length ext - 1) p, CHR ''.'' # ext)
         else (p, []))"

section \<open>Images, meshes and files\<close>

text \<open>
  A PIL image: its mode, its size and the colour of each pixel (column \<open>x\<close>, row \<open>y\<close>). An
  RGB image keeps alpha 255 in every pixel. Only the pixels inside the size are the image.
\<close>

type_synonym rgb = "nat \<times> nat \<times> nat"
type_synonym rgba = "nat \<times> nat \<times> nat \<times> nat"

datatype mode = RGB | RGBA | Grey

record image =
  im_mode :: mode
  im_width :: int
  im_height :: int
  im_pixel :: "int \<Rightarrow> int \<Rightarrow> rgba"

definition opaque :: "rgb \<Rightarrow> rgba" where
  "opaque c = (fst c, fst (snd c), snd (snd c), 255)"

definition Image_new :: "mode \<Rightarrow> int \<times> int \<Rightarrow> rgba \<Rightarrow> image" where
  "Image_new m sz c = \<lparr>im_mode = m, im_width = fst sz, im_height = snd sz, im_pixel = (\<lambda>x y. c)\<rparr>"

definition inside :: "image \<Rightarrow> int \<Rightarrow> int \<Rightarrow> bool" where
  "inside im x y = (0 \<le> x \<and> x < im_width im \<and> 0 \<le> y \<and> y < im_height im)"

definition image_crop :: "image \<Rightarrow> int \<times> int \<times> int \<times> int \<Rightarrow> image" where
  \<comment> \<open>\<open>image.crop((x1, y1, x2, y2))\<close>: a new image; what lies outside the source is black.\<close>
  "image_crop im box =
     (case box of (x1, y1, x2, y2) \<Rightarrow>
        \<lparr>im_mode = im_mode im, im_width = x2 - x1, im_height = y2 - y1,
         im_pixel = (\<lambda>x y. if inside im (x + x1) (y + y1) then im_pixel im (x + x1) (y + y1)
                            else (0, 0, 0, 255))\<rparr>)"

definition image_paste :: "image \<Rightarrow> image \<Rightarrow> int \<times> int \<Rightarrow> image" where
  \<comment> \<open>\<open>dst.paste(src, (px, py))\<close> without a mask: the region of \<open>dst\<close> under \<open>src\<close> is
      overwritten, in the mode of \<open>dst\<close>.\<close>
  "image_paste dst src pos =
     dst\<lparr>im_pixel := (\<lambda>x y.
        if inside src (x - fst pos) (y - snd pos) \<and> inside dst x y
        then (case im_pixel src (x - fst pos) (y - snd pos) of
                (r, g, b, a) \<Rightarrow> (r, g, b, if im_mode dst = RGBA then a else 255))
        else im_pixel dst x y)\<rparr>"

definition image_convert :: "image \<Rightarrow> mode \<Rightarrow> image" where
  \<comment> \<open>\<open>im.convert(mode)\<close> between RGB and RGBA: always a new image; RGB has no alpha.\<close>
  "image_convert im m =
     \<lparr>im_mode = m, im_width = im_width im, im_height = im_height im,
      im_pixel = (\<lambda>x y. case im_pixel im x y of
                     (r, g, b, a) \<Rightarrow> (r, g, b, if m = RGBA \<and> im_mode im = RGBA then a else 255))\<rparr>"

text \<open>
  The vertex coordinates and the UV coordinates are NumPy floats. A quotient is a number,
  or one of the special values a division by zero gives.
\<close>

type_synonym vertex = "real \<times> real \<times> real"

datatype fval = Num real | NaN | PosInf | NegInf

datatype visual =
    ColorVisuals "nat list list option"
  | TextureVisuals "(fval \<times> fval) list" image

record mesh =
  mesh_vertices :: "vertex list"
  mesh_faces :: "(nat \<times> nat \<times> nat) list"
  mesh_visual :: visual

text \<open>What a file holds, and the file system as a map from paths.\<close>

datatype content =
    Text string
  | Picture image
  | Report measurements
  | Scene mesh

type_synonym fs = "string \<rightharpoonup> content"

section \<open>Perception results for one photograph\<close>

text \<open>
  The neural models are external. For the photograph at a path the record holds what each
  call returns: the image as PIL opens it (\<open>None\<close> when opening raises), the array
  \<open>cv2.imread\<close> returns (\<open>None\<close> when the file is unreadable), the pose landmarks
  (\<open>None\<close> when no pose is found), the thresholded and resized segmentation mask, the
  landmark lists of the face mesh, one per face, and the relative bounding boxes of the
  face detector, one per face (for these two \<open>None\<close> means that the call raises and the
  empty list that nothing was found).
\<close>

record bbox =
  xmin :: real
  ymin :: real
  box_width :: real
  box_height :: real

record cv_image =
  cv_rows :: int
  cv_cols :: int
  cv_at :: "int \<Rightarrow> int \<Rightarrow> rgb"

record photo =
  pil_image :: "image option"
  cv_imread :: "cv_image option"
  pose_landmarks :: "landmark list option"
  segmentation_mask :: image
  face_mesh :: "landmark list list option"
  face_detection :: "bbox list option"

definition box_pixels :: "bbox \<Rightarrow> int \<times> int \<Rightarrow> int \<times> int \<times> int \<times> int" where
  "box_pixels box sz =
     (py_int (xmin box * real_of_int (fst sz)),
      py_int (ymin box * real_of_int (snd sz)),
      py_int ((xmin box + box_width box) * real_of_int (fst sz)),
      py_int ((ymin box + box_height box) * real_of_int (snd sz)))"

definition im_size :: "image \<Rightarrow> int \<times> int" where
  "im_size im = (im_width im, im_height im)"

definition detect_faces :: "photo \<Rightarrow> error + (int \<times> int \<times> int \<times> int) list" where
  "detect_faces p =
     (case pil_image p of None \<Rightarrow> Inl OSError
      | Some img \<Rightarrow>
         (case face_detection p of None \<Rightarrow> Inl ModelError
          | Some detections \<Rightarrow> Inr (map (\<lambda>box. box_pixels box (im_size img)) detections)))"

definition crop_face :: "photo \<Rightarrow> image option" where
  "crop_face p =
     (case pil_image p of None \<Rightarrow> None
      | Some img \<Rightarrow>
         (case face_detection p of None \<Rightarrow> None
          | Some [] \<Rightarrow> None
          | Some (box # _) \<Rightarrow> Some (image_crop img (box_pixels box (im_size img)))))"

definition extract_face_landmarks :: "photo \<Rightarrow> (int \<times> int) list option" where
  "extract_face_landmarks p =
     (case pil_image p of None \<Rightarrow> None
      | Some img \<Rightarrow>
         (case face_mesh p of None \<Rightarrow> None
          | Some (landmarks # _) \<Rightarrow>
              Some (map (\<lambda>lm. (py_int (lm_x lm * real_of_int (im_width img)),
                               py_int (lm_y lm * real_of_int (im_height img)))) landmarks)
          | Some [] \<Rightarrow>
             (case face_detection p of None \<Rightarrow> None
              | Some [] \<Rightarrow> None
              | Some (box # _) \<Rightarrow>
                 (case box_pixels box (im_size img) of
                    (x1, y1, x2, y2) \<Rightarrow> Some [(x1, y1), (x2, y1), (x2, y2), (x1, y2)]))))"

section \<open>Colour sampling (image_utils.py)\<close>

definition sample_window :: "cv_image \<Rightarrow> int \<Rightarrow> int \<times> int \<Rightarrow> rgb list" where
  \<comment> \<open>The two nested loops over \<open>range(-region_size, region_size)\<close>, clipped to the image.\<close>
  "sample_window img region_size pt =
     concat (map (\<lambda>dx. concat (map (\<lambda>dy.
        let nx = fst pt + dx; ny = snd pt + dy
        in if 0 \<le> nx \<and> nx < cv_cols img \<and> 0 \<le> ny \<and> ny < cv_rows img then [cv_at img ny nx] else [])
        [- region_size..region_size - 1])) [- region_size..region_size - 1])"

definition mean_color :: "rgb list \<Rightarrow> rgb" where
  \<comment> \<open>\<open>np.mean(colors, axis=0)\<close> and \<open>int(c)\<close> per channel: the channels are bytes, so the
      truncated mean is the integer quotient.\<close>
  "mean_color colors =
     (sum_list (map fst colors) div length colors,
      sum_list (map (fst \<circ> snd) colors) div length colors,
      sum_list (map (snd \<circ> snd) colors) div length colors)"

definition extract_skin_color :: "photo \<Rightarrow> error + rgb option" where
  "extract_skin_color p =
     (case extract_face_landmarks p of
        None \<Rightarrow> Inr (Some (198, 134, 66))
      | Some coords \<Rightarrow>
         (case cv_imread p of None \<Rightarrow> Inl AttributeError
          | Some img \<Rightarrow>
             bind_err (get_item coords 234) (\<lambda>left_cheek.
             bind_err (get_item coords 454) (\<lambda>right_cheek.
             let colors = concat (map (sample_window img 10) [left_cheek, right_cheek])
             in Inr (if colors \<noteq> [] then Some (mean_color colors) else None)))))"

definition extract_eye_color :: "photo \<Rightarrow> error + rgb option" where
  "extract_eye_color p =
     (let coords = extract_face_landmarks p; cv = cv_imread p in
      case coords of
        None \<Rightarrow> Inr None
      | Some coords \<Rightarrow>
         (case cv of None \<Rightarrow> Inl AttributeError
          | Some img \<Rightarrow>
             let sample_points =
                   (if length coords > max 474 469 then [coords ! 474, coords ! 469]
                    else map (\<lambda>idx. coords ! idx) (filter (\<lambda>idx. idx < length coords) [33, 133, 362, 263]));
                 colors = concat (map (sample_window img 5) sample_points)
             in Inr (if colors \<noteq> [] then Some (mean_color colors) else None)))"

section \<open>Debug artefacts of body-shape extraction (image_utils.py, extract_body_shape)\<close>

definition bodymask_path :: "string \<Rightarrow> string" where
  "bodymask_path image_path =
     str_replace (str_replace (str_replace image_path ''.jpg'' ''_bodymask.png'')
        ''.jpeg'' ''_bodymask.png'') ''.png'' ''_bodymask.png''"

definition measurements_path :: "string \<Rightarrow> string" where
  "measurements_path image_path =
     str_replace (str_replace (str_replace image_path ''.jpg'' ''_measurements.txt'')
        ''.jpeg'' ''_measurements.txt'') ''.png'' ''_measurements.txt''"

definition extract_body_shape ::
  "(string \<Rightarrow> bool) \<Rightarrow> photo \<Rightarrow> string \<Rightarrow> bool \<Rightarrow> fs \<Rightarrow>
     (error + (landmark list \<times> image \<times> measurements \<times> int \<times> int) option) \<times> fs" where
  \<comment> \<open>\<open>writable\<close> says which paths can be opened for writing; \<open>p\<close> is what the models
      return for the photograph at \<open>image_path\<close>.\<close>
  "extract_body_shape writable p image_path save_intermediate files =
     (case pil_image p of None \<Rightarrow> (Inl OSError, files)
      | Some img \<Rightarrow>
         (case pose_landmarks p of None \<Rightarrow> (Inr None, files)
          | Some landmarks \<Rightarrow>
             let mask_img = segmentation_mask p in
             if save_intermediate \<and> \<not> writable (bodymask_path image_path) then (Inl OSError, files)
             else
               let files1 = (if save_intermediate
                             then files(bodymask_path image_path \<mapsto> Picture mask_img) else files)
               in (case estimate_body_measurements landmarks (im_size img) of
                     Inl e \<Rightarrow> (Inl e, files1)
                   | Inr m \<Rightarrow>
                      if \<not> writable (measurements_path image_path) then (Inl OSError, files1)
                      else (Inr (Some (landmarks, mask_img, m, im_size img)),
                            files1(measurements_path image_path \<mapsto> Report m)))))"

section \<open>Texture compositing (avatar_utils.py, fit_smplx_to_landmarks, lines 52-115)\<close>

text \<open>
  The functions of the imaging library that the compositor calls and that are not part of
  the repository: resampling (\<open>None\<close> when it raises), the per-pixel rule of
  \<open>Image.alpha_composite\<close> (backdrop first), the pixels \<open>ImageDraw.ellipse\<close> fills for a
  bounding box, and the file extensions \<open>save\<close> knows a format for.
\<close>

record pil =
  resize :: "image \<Rightarrow> int \<times> int \<Rightarrow> image option"
  over :: "rgba \<Rightarrow> rgba \<Rightarrow> rgba"
  in_ellipse :: "int \<times> int \<times> int \<times> int \<Rightarrow> int \<Rightarrow> int \<Rightarrow> bool"
  registered_extension :: "string \<Rightarrow> bool"

definition alpha_composite :: "pil \<Rightarrow> image \<Rightarrow> image \<Rightarrow> image" where
  "alpha_composite lib im1 im2 =
     \<lparr>im_mode = RGBA, im_width = im_width im1, im_height = im_height im1,
      im_pixel = (\<lambda>x y. over lib (im_pixel im1 x y) (im_pixel im2 x y))\<rparr>"

definition draw_ellipse :: "pil \<Rightarrow> image \<Rightarrow> int \<times> int \<times> int \<times> int \<Rightarrow> rgba \<Rightarrow> image" where
  "draw_ellipse lib im box fill =
     im\<lparr>im_pixel := (\<lambda>x y. if in_ellipse lib box x y \<and> inside im x y then fill else im_pixel im x y)\<rparr>"

text \<open>
  Image objects live in a store: \<open>paste\<close> and the drawing handle change an object in
  place, while \<open>convert\<close> and \<open>alpha_composite\<close> return a new object. A variable holds an
  address.
\<close>

record store =
  cell :: "nat \<Rightarrow> image"
  fresh :: nat

definition empty_store :: store where
  "empty_store = \<lparr>cell = (\<lambda>a. Image_new RGB (0, 0) (0, 0, 0, 255)), fresh = 0\<rparr>"

definition alloc :: "image \<Rightarrow> store \<Rightarrow> nat \<times> store" where
  "alloc im s = (fresh s, s\<lparr>cell := (cell s)(fresh s := im), fresh := Suc (fresh s)\<rparr>)"

definition mutate :: "nat \<Rightarrow> (image \<Rightarrow> image) \<Rightarrow> store \<Rightarrow> store" where
  "mutate a f s = s\<lparr>cell := (cell s)(a := f (cell s a))\<rparr>"

definition texture_size :: int where
  "texture_size = 512"

definition overlay_face :: "pil \<Rightarrow> photo option \<Rightarrow> nat \<Rightarrow> store \<Rightarrow> store" where
  \<comment> \<open>Lines 61-81. \<open>ph\<close> is \<open>None\<close> when \<open>image_path\<close> is \<open>None\<close> or names no file; every
      exception is caught and leaves the texture as it is.\<close>
  "overlay_face lib ph texture_img s =
     (case ph of None \<Rightarrow> s
      | Some p \<Rightarrow>
         (case detect_faces p of Inl e \<Rightarrow> s
          | Inr boxes \<Rightarrow>
             if boxes = [] then s
             else
               (case crop_face p of None \<Rightarrow> s
                | Some face_img \<Rightarrow>
                   (case extract_face_landmarks p of None \<Rightarrow> s
                    | Some face_landmarks \<Rightarrow>
                       if \<not> length face_landmarks > 0 then s
                       else
                         let uv_x = py_int (real_of_int texture_size * 0.5);
                             uv_y = py_int (real_of_int texture_size * 0.32)
                         in (case resize lib face_img (py_int (real_of_int texture_size * 0.28),
                                                       py_int (real_of_int texture_size * 0.28)) of
                               None \<Rightarrow> s
                             | Some face_img \<Rightarrow>
                                 let face_x = uv_x - im_width face_img div 2;
                                     face_y = uv_y - im_height face_img div 2
                                 in mutate texture_img (\<lambda>t. image_paste t face_img (face_x, face_y)) s)))))"

definition find_outfit :: "string \<Rightarrow> string \<Rightarrow> fs \<Rightarrow> string option" where
  \<comment> \<open>Lines 85-96: the first existing file among the three extensions.\<close>
  "find_outfit module_dir gender files =
     (let assets_dir = path_join module_dir ''fashion_assets'';
          outfit_base = (if gender = ''male'' then Some (path_join assets_dir ''male_outfit'')
                         else if gender = ''female'' then Some (path_join assets_dir ''female_outfit'')
                         else None)
      in case outfit_base of None \<Rightarrow> None
         | Some base \<Rightarrow> find (\<lambda>path. files path \<noteq> None) (map (\<lambda>ext. base @ ext) [''.png'', ''.jpg'', ''.jpeg'']))"

definition open_outfit :: "pil \<Rightarrow> fs \<Rightarrow> string \<Rightarrow> image option" where
  \<comment> \<open>\<open>Image.open(outfit_path).convert("RGBA").resize(...)\<close>; \<open>None\<close> when one of them raises.\<close>
  "open_outfit lib files outfit_path =
     (case files outfit_path of
        Some (Picture im) \<Rightarrow> resize lib (image_convert im RGBA) (texture_size, texture_size)
      | _ \<Rightarrow> None)"

definition overlay_outfit :: "pil \<Rightarrow> string \<Rightarrow> string \<Rightarrow> fs \<Rightarrow> nat \<Rightarrow> store \<Rightarrow> nat \<times> store" where
  \<comment> \<open>Lines 84-107. Returns the object that the variable \<open>texture_img\<close> names afterwards.\<close>
  "overlay_outfit lib module_dir gender files texture_img s =
     (case find_outfit module_dir gender files of None \<Rightarrow> (texture_img, s)
      | Some outfit_path \<Rightarrow>
         (case open_outfit lib files outfit_path of None \<Rightarrow> (texture_img, s)
          | Some clothing \<Rightarrow>
             (case alloc (image_convert (cell s texture_img) RGBA) s of (texture_img1, s1) \<Rightarrow>
              case alloc (alpha_composite lib (cell s1 texture_img1) clothing) s1 of (texture_img2, s2) \<Rightarrow>
              alloc (image_convert (cell s2 texture_img2) RGB) s2)))"

definition paint_eyes :: "pil \<Rightarrow> rgb option \<Rightarrow> nat \<Rightarrow> store \<Rightarrow> store" where
  \<comment> \<open>Lines 110-115: both ellipses go through the handle \<open>draw\<close>.\<close>
  "paint_eyes lib eye_color draw s =
     (case eye_color of None \<Rightarrow> s
      | Some c \<Rightarrow>
         let left_eye_uv = (py_int (real_of_int texture_size * 0.43), py_int (real_of_int texture_size * 0.32));
             right_eye_uv = (py_int (real_of_int texture_size * 0.57), py_int (real_of_int texture_size * 0.32));
             eye_radius = py_int (real_of_int texture_size * 0.03);
             s1 = mutate draw (\<lambda>t. draw_ellipse lib t
                    (fst left_eye_uv - eye_radius, snd left_eye_uv - eye_radius,
                     fst left_eye_uv + eye_radius, snd left_eye_uv + eye_radius) (opaque c)) s
         in mutate draw (\<lambda>t. draw_ellipse lib t
                    (fst right_eye_uv - eye_radius, snd right_eye_uv - eye_radius,
                     fst right_eye_uv + eye_radius, snd right_eye_uv + eye_radius) (opaque c)) s1)"

definition compose_texture ::
  "pil \<Rightarrow> string \<Rightarrow> string \<Rightarrow> photo option \<Rightarrow> rgb option \<Rightarrow> fs \<Rightarrow> store \<Rightarrow> nat \<times> store" where
  \<comment> \<open>Lines 52-115. The handle \<open>draw\<close> is bound once, to the object created at line 57.\<close>
  "compose_texture lib module_dir gender ph eye_color files s0 =
     (let fill_color = (10, 10, 10) in
      case alloc (Image_new RGB (texture_size, texture_size) (opaque fill_color)) s0 of
        (texture_img, s1) \<Rightarrow>
          let draw = texture_img;
              s2 = overlay_face lib ph texture_img s1
          in (case overlay_outfit lib module_dir gender files texture_img s2 of
                (texture_img, s3) \<Rightarrow> (texture_img, paint_eyes lib eye_color draw s3)))"

definition texture_image :: "pil \<Rightarrow> string \<Rightarrow> string \<Rightarrow> photo option \<Rightarrow> rgb option \<Rightarrow> fs \<Rightarrow> image" where
  \<comment> \<open>The object that \<open>texture_img\<close> names at line 123, where it is saved.\<close>
  "texture_image lib module_dir gender ph eye_color files =
     (case compose_texture lib module_dir gender ph eye_color files empty_store of
        (texture_img, s) \<Rightarrow> cell s texture_img)"

definition base_with_face :: "pil \<Rightarrow> photo option \<Rightarrow> image" where
  \<comment> \<open>The object created at line 57 as it is after the face overlay: the one \<open>draw\<close> is bound to.\<close>
  "base_with_face lib ph =
     cell (overlay_face lib ph 0
            (snd (alloc (Image_new RGB (texture_size, texture_size) (opaque (10, 10, 10))) empty_store))) 0"

section \<open>Planar UV coordinates (avatar_utils.py, lines 9-11 and 131-133)\<close>

definition np_divide :: "real \<Rightarrow> real \<Rightarrow> fval" where
  \<comment> \<open>NumPy's float division: a zero divisor raises nothing.\<close>
  "np_divide n d =
     (if d \<noteq> 0 then Num (n / d) else if n = 0 then NaN else if 0 < n then PosInf else NegInf)"

definition array_min :: "real list \<Rightarrow> error + real" where
  "array_min xs = (case xs of [] \<Rightarrow> Inl ValueError | x # rest \<Rightarrow> Inr (fold min rest x))"

definition array_max :: "real list \<Rightarrow> error + real" where
  "array_max xs = (case xs of [] \<Rightarrow> Inl ValueError | x # rest \<Rightarrow> Inr (fold max rest x))"

definition planar_uv :: "vertex list \<Rightarrow> error + (fval \<times> fval) list" where
  "planar_uv vertices =
     (let xs = map fst vertices; ys = map (fst \<circ> snd) vertices in
      bind_err (array_min xs) (\<lambda>x_min.
      bind_err (array_max xs) (\<lambda>x_max.
      bind_err (array_min ys) (\<lambda>y_min.
      bind_err (array_max ys) (\<lambda>y_max.
      Inr (map (\<lambda>v. (np_divide (fst v - x_min) (x_max - x_min),
                      np_divide (fst (snd v) - y_min) (y_max - y_min))) vertices))))))"

definition guarded_divide :: "real \<Rightarrow> real \<Rightarrow> fval" where
  \<comment> \<open>The guard the specification asks for: a zero denominator is treated as 1.\<close>
  "guarded_divide n d = Num (n / (if d = 0 then 1 else d))"

definition guarded_planar_uv :: "vertex list \<Rightarrow> error + (fval \<times> fval) list" where
  \<comment> \<open>The specification's UV assignment, with the guard; for comparison with \<open>planar_uv\<close>.\<close>
  "guarded_planar_uv vertices =
     (let xs = map fst vertices; ys = map (fst \<circ> snd) vertices in
      bind_err (array_min xs) (\<lambda>x_min.
      bind_err (array_max xs) (\<lambda>x_max.
      bind_err (array_min ys) (\<lambda>y_min.
      bind_err (array_max ys) (\<lambda>y_max.
      Inr (map (\<lambda>v. (guarded_divide (fst v - x_min) (x_max - x_min),
                      guarded_divide (fst (snd v) - y_min) (y_max - y_min))) vertices))))))"

section \<open>The UV template (avatar_utils.py, export_uv_template)\<close>

definition fval_scale :: "fval \<Rightarrow> real \<Rightarrow> fval" where
  "fval_scale u k =
     (case u of Num r \<Rightarrow> Num (r * k) | NaN \<Rightarrow> NaN
      | PosInf \<Rightarrow> (if k = 0 then NaN else if 0 < k then PosInf else NegInf)
      | NegInf \<Rightarrow> (if k = 0 then NaN else if 0 < k then NegInf else PosInf))"

definition fval_one_minus :: "fval \<Rightarrow> fval" where
  "fval_one_minus v = (case v of Num r \<Rightarrow> Num (1 - r) | NaN \<Rightarrow> NaN | PosInf \<Rightarrow> NegInf | NegInf \<Rightarrow> PosInf)"

definition fval_int :: "fval \<Rightarrow> error + int" where
  \<comment> \<open>\<open>int(x)\<close>: ValueError on NaN, OverflowError on an infinity.\<close>
  "fval_int u = (case u of Num r \<Rightarrow> Inr (py_int r) | NaN \<Rightarrow> Inl ValueError | _ \<Rightarrow> Inl OverflowError)"

fun draw_uv_points :: "pil \<Rightarrow> int \<Rightarrow> (fval \<times> fval) list \<Rightarrow> image \<Rightarrow> error + image" where
  "draw_uv_points lib ts [] img = Inr img"
| "draw_uv_points lib ts (p # uv) img =
     bind_err (fval_int (fval_scale (fst p) (real_of_int (ts - 1)))) (\<lambda>x.
     bind_err (fval_int (fval_scale (fval_one_minus (snd p)) (real_of_int (ts - 1)))) (\<lambda>y.
     draw_uv_points lib ts uv (draw_ellipse lib img (x - 2, y - 2, x + 2, y + 2) (0, 0, 0, 255))))"

definition image_save :: "pil \<Rightarrow> (string \<Rightarrow> bool) \<Rightarrow> image \<Rightarrow> string \<Rightarrow> fs \<Rightarrow> error + fs" where
  \<comment> \<open>\<open>img.save(path)\<close>: the format comes from the extension, then the file is written.\<close>
  "image_save lib writable img path files =
     (if \<not> registered_extension lib (snd (splitext path)) then Inl ValueError
      else if \<not> writable path then Inl OSError
      else Inr (files(path \<mapsto> Picture img)))"

definition export_uv_template ::
  "pil \<Rightarrow> (string \<Rightarrow> bool) \<Rightarrow> vertex list \<Rightarrow> string \<Rightarrow> int \<Rightarrow> fs \<Rightarrow> error + fs" where
  "export_uv_template lib writable vertices out_path ts files =
     bind_err (planar_uv vertices) (\<lambda>uv.
     bind_err (draw_uv_points lib ts uv (Image_new RGBA (ts, ts) (255, 255, 255, 0))) (\<lambda>img.
     image_save lib writable img out_path files))"

section \<open>Mesh assembly and export (avatar_utils.py, fit_smplx_to_landmarks)\<close>

text \<open>
  What the run depends on outside the repository: the directory of the module, the paths
  that can be written or removed, the perception results per photograph, the parametric
  body model (\<open>None\<close> when loading it raises), the imaging library, and the two mesh
  exporters (the OBJ text of a mesh, \<open>None\<close> when the exporter raises; whether the binary
  export of a mesh succeeds).
\<close>

record world =
  module_dir :: string
  writable :: "string \<Rightarrow> bool"
  perceive :: "string \<Rightarrow> photo"
  smplx_model :: "string \<Rightarrow> string \<Rightarrow> (vertex list \<times> (nat \<times> nat \<times> nat) list) option"
  pil_lib :: pil
  export_obj :: "mesh \<Rightarrow> string option"
  export_glb :: "mesh \<Rightarrow> bool"

definition NL :: char where
  "NL = CHR 0x0A"

definition Trimesh :: "vertex list \<Rightarrow> (nat \<times> nat \<times> nat) list \<Rightarrow> mesh" where
  "Trimesh vertices faces = \<lparr>mesh_vertices = vertices, mesh_faces = faces, mesh_visual = ColorVisuals None\<rparr>"

definition set_vertex_colors :: "visual \<Rightarrow> nat list list \<Rightarrow> visual" where
  \<comment> \<open>\<open>mesh.visual.vertex_colors = colors\<close>: an attribute of the visual the mesh has now.\<close>
  "set_vertex_colors vis colors =
     (case vis of ColorVisuals old \<Rightarrow> ColorVisuals (Some colors) | TextureVisuals uv im \<Rightarrow> TextureVisuals uv im)"

definition vertex_colors :: "visual \<Rightarrow> nat list list option" where
  \<comment> \<open>The per-vertex colours a visual carries; a texture visual has none.\<close>
  "vertex_colors vis = (case vis of ColorVisuals colors \<Rightarrow> colors | TextureVisuals uv im \<Rightarrow> None)"

definition texture_of :: "visual \<Rightarrow> ((fval \<times> fval) list \<times> image) option" where
  "texture_of vis = (case vis of ColorVisuals colors \<Rightarrow> None | TextureVisuals uv im \<Rightarrow> Some (uv, im))"

definition attach_visuals :: "mesh \<Rightarrow> vertex list \<Rightarrow> nat list option \<Rightarrow> (fval \<times> fval) list \<Rightarrow> image \<Rightarrow> mesh" where
  \<comment> \<open>Lines 134-142: the vertex colours are set on the visual, then \<open>mesh.visual\<close> is assigned.\<close>
  "attach_visuals mesh vertices skin_color uv texture =
     (let mesh1 =
        (case skin_color of None \<Rightarrow> mesh
         | Some c \<Rightarrow>
            let vertex_color = (if length c = 3 then c @ [255] else c)
            in mesh\<lparr>mesh_visual := set_vertex_colors (mesh_visual mesh) (replicate (length vertices) vertex_color)\<rparr>)
      in mesh1\<lparr>mesh_visual := TextureVisuals uv texture\<rparr>)"

fun remove_outputs :: "(string \<Rightarrow> bool) \<Rightarrow> string list \<Rightarrow> fs \<Rightarrow> error option \<times> fs" where
  \<comment> \<open>\<open>if os.path.exists(f): os.remove(f)\<close> for each path in turn; stops where a removal raises.\<close>
  "remove_outputs wr [] files = (None, files)"
| "remove_outputs wr (f # rest) files =
     (if files f \<noteq> None
      then (if wr f then remove_outputs wr rest (files(f := None)) else (Some OSError, files))
      else remove_outputs wr rest files)"

definition material_text :: "string \<Rightarrow> string" where
  \<comment> \<open>The string written at line 129.\<close>
  "material_text texture_name =
     ''newmtl skin'' @ [NL] @ ''Ka 1.0 1.0 1.0'' @ [NL] @ ''Kd 1.0 1.0 1.0'' @ [NL] @
     ''Ks 0.0 0.0 0.0'' @ [NL] @ ''d 1.0'' @ [NL] @ ''illum 2'' @ [NL] @
     ''map_Kd '' @ texture_name @ [NL]"

definition stale_outputs :: "string \<Rightarrow> string list" where
  \<comment> \<open>Lines 47-48: the three files named after the stem of \<open>out_path\<close>, in its directory.\<close>
  "stale_outputs out_path =
     map (\<lambda>ext. path_join (dirname out_path) (fst (splitext (basename out_path)) @ ext))
       [''.obj'', ''.mtl'', ''.png'']"

definition save_texture_and_material :: "world \<Rightarrow> image \<Rightarrow> string \<Rightarrow> fs \<Rightarrow> (error + string) \<times> fs" where
  \<comment> \<open>Lines 117-129: the texture image, then the material file. Returns \<open>mtl_name\<close>.\<close>
  "save_texture_and_material w texture out_path files =
     (let user_image_path = str_replace out_path ''_avatar.obj'' ''.png'' in
      case remove_outputs (writable w) [user_image_path] files of
        (Some e, files1) \<Rightarrow> (Inl e, files1)
      | (None, files1) \<Rightarrow>
         (case image_save (pil_lib w) (writable w) texture user_image_path files1 of
            Inl e \<Rightarrow> (Inl e, files1)
          | Inr files2 \<Rightarrow>
             let mtl_path = str_replace out_path ''.obj'' ''.mtl'';
                 mtl_name = basename mtl_path;
                 texture_name = basename user_image_path
             in if \<not> writable w mtl_path then (Inl OSError, files2)
                else (Inr mtl_name, files2(mtl_path \<mapsto> Text (material_text texture_name)))))"

definition prepare_mesh ::
  "world \<Rightarrow> string \<Rightarrow> string \<Rightarrow> string \<Rightarrow> string option \<Rightarrow> nat list option \<Rightarrow> rgb option \<Rightarrow> fs \<Rightarrow>
     (error + mesh \<times> string) \<times> fs" where
  \<comment> \<open>Lines 29-142: everything before the mesh file is written. Returns the textured mesh and
      \<open>mtl_name\<close>, or the exception raised, with the files as they are at that point.\<close>
  "prepare_mesh w model_path gender out_path image_path skin_color eye_color files =
     (case smplx_model w model_path gender of
        None \<Rightarrow> (Inl ModelError, files)
      | Some (vertices, faces) \<Rightarrow>
         let mesh = Trimesh vertices faces;
             files1 = (case export_uv_template (pil_lib w) (writable w) vertices ''uv_template.png'' 512 files of
                         Inl e \<Rightarrow> files | Inr f \<Rightarrow> f)
         in (case remove_outputs (writable w) (stale_outputs out_path) files1 of
               (Some e, files2) \<Rightarrow> (Inl e, files2)
             | (None, files2) \<Rightarrow>
                let ph = (case image_path of None \<Rightarrow> None
                          | Some path \<Rightarrow> if files2 path \<noteq> None then Some (perceive w path) else None);
                    texture = texture_image (pil_lib w) (module_dir w) gender ph eye_color files2
                in (case save_texture_and_material w texture out_path files2 of
                      (Inl e, files3) \<Rightarrow> (Inl e, files3)
                    | (Inr mtl_name, files3) \<Rightarrow>
                       (case planar_uv vertices of
                          Inl e \<Rightarrow> (Inl e, files3)
                        | Inr uv \<Rightarrow>
                           (Inr (attach_visuals mesh vertices skin_color uv texture, mtl_name), files3)))))"

definition write_mesh_files :: "world \<Rightarrow> mesh \<Rightarrow> string \<Rightarrow> string \<Rightarrow> fs \<Rightarrow> string \<times> fs" where
  \<comment> \<open>Lines 143-160: both writes sit in a \<open>try\<close> whose handler only prints.\<close>
  "write_mesh_files w mesh mtl_name out_path files =
     (let header = ''mtllib '' @ mtl_name @ [NL] @ ''usemtl skin'' @ [NL];
          files1 = (if writable w out_path
                    then (case export_obj w mesh of
                            None \<Rightarrow> files(out_path \<mapsto> Text header)
                          | Some geometry \<Rightarrow> files(out_path \<mapsto> Text (header @ geometry)))
                    else files);
          glb_path = fst (splitext out_path) @ ''.glb''
      in if writable w glb_path \<and> export_glb w mesh
         then (glb_path, files1(glb_path \<mapsto> Scene mesh))
         else (out_path, files1))"

definition fit_smplx_to_landmarks ::
  "world \<Rightarrow> landmark list \<Rightarrow> string \<Rightarrow> string \<Rightarrow> string \<Rightarrow> string option \<Rightarrow> nat list option \<Rightarrow>
     rgb option \<Rightarrow> fs \<Rightarrow> (error + string) \<times> fs" where
  "fit_smplx_to_landmarks w landmarks model_path gender out_path image_path skin_color eye_color files =
     (case prepare_mesh w model_path gender out_path image_path skin_color eye_color files of
        (Inl e, files1) \<Rightarrow> (Inl e, files1)
      | (Inr (mesh, mtl_name), files1) \<Rightarrow>
         (case write_mesh_files w mesh mtl_name out_path files1 of
            (path, files2) \<Rightarrow> (Inr path, files2)))"

section \<open>A concrete imaging library and wardrobe\<close>

text \<open>
  One instance of the library functions, used to run the compositor on explicit inputs:
  nearest-neighbour resampling, source-over blending on bytes, and the disc inscribed in
  the bounding box.
\<close>

definition nearest_resize :: "image \<Rightarrow> int \<times> int \<Rightarrow> image option" where
  "nearest_resize im sz =
     (if fst sz \<le> 0 \<or> snd sz \<le> 0 then None
      else Some \<lparr>im_mode = im_mode im, im_width = fst sz, im_height = snd sz,
                 im_pixel = (\<lambda>x y. im_pixel im (x * im_width im div fst sz) (y * im_height im div snd sz))\<rparr>)"

definition source_over :: "rgba \<Rightarrow> rgba \<Rightarrow> rgba" where
  "source_over dst src =
     (case dst of (r0, g0, b0, a0) \<Rightarrow>
      case src of (r, g, b, a) \<Rightarrow>
        ((r * a + r0 * (255 - a)) div 255, (g * a + g0 * (255 - a)) div 255,
         (b * a + b0 * (255 - a)) div 255, 255))"

definition disc :: "int \<times> int \<times> int \<times> int \<Rightarrow> int \<Rightarrow> int \<Rightarrow> bool" where
  "disc box x y =
     (case box of (x0, y0, x1, y1) \<Rightarrow>
        (2 * x - x0 - x1)\<^sup>2 + (2 * y - y0 - y1)\<^sup>2 \<le> (x1 - x0)\<^sup>2)"

definition demo_lib :: pil where
  "demo_lib = \<lparr>resize = nearest_resize, over = source_over, in_ellipse = disc,
               registered_extension = (\<lambda>ext. ext = ''.png'' \<or> ext = ''.jpg'' \<or> ext = ''.jpeg'')\<rparr>"

definition red_outfit :: image where
  "red_outfit = Image_new RGBA (512, 512) (200, 0, 0, 255)"

definition wardrobe :: fs where
  \<comment> \<open>The only file: an opaque red garment for the gender "male".\<close>
  "wardrobe = Map.empty(''ml/fashion_assets/male_outfit.png'' \<mapsto> Picture red_outfit)"

definition faceless_photo :: photo where
  \<comment> \<open>A 4 x 4 photograph with a body pose but no face for either detector.\<close>
  "faceless_photo =
     \<lparr>pil_image = Some (Image_new RGB (4, 4) (90, 90, 90, 255)),
      cv_imread = Some \<lparr>cv_rows = 4, cv_cols = 4, cv_at = (\<lambda>r c. (90, 90, 90))\<rparr>,
      pose_landmarks = Some synthetic_pose,
      segmentation_mask = Image_new Grey (4, 4) (255, 255, 255, 255),
      face_mesh = Some [],
      face_detection = Some []\<rparr>"

definition flat_vertices :: "vertex list" where
  \<comment> \<open>Three vertices in the plane x = 1.\<close>
  "flat_vertices = [(1, 0, 0), (1, 1, 0), (1, 2, 5)]"

definition triangle :: "vertex list" where
  "triangle = [(0, 0, 0), (1, 0, 0), (0, 2, 0)]"

definition demo_world :: "bool \<Rightarrow> bool \<Rightarrow> world" where
  \<comment> \<open>A world with a one-triangle body model; the two flags say whether the mesh file can be
      opened for writing and whether the binary export succeeds.\<close>
  "demo_world obj_ok glb_ok =
     \<lparr>module_dir = ''ml'',
      writable = (\<lambda>path. if path = ''out/u_male_avatar.obj'' then obj_ok else True),
      perceive = (\<lambda>path. faceless_photo),
      smplx_model = (\<lambda>model_path gender. Some (triangle, [(0, 1, 2)])),
      pil_lib = demo_lib,
      export_obj = (\<lambda>m. Some ''f 1 2 3''),
      export_glb = (\<lambda>m. glb_ok)\<rparr>"

section \<open>Properties of the measurement estimator\<close>

lemma get_xy_in_range:
  "i < length landmarks \<Longrightarrow> get_xy landmarks sz i = Inr (pixel_point landmarks sz i)"
  by (simp add: get_xy_def get_item_def bind_err_def pixel_point_def)

lemma get_xy_out_of_range:
  "length landmarks \<le> i \<Longrightarrow> get_xy landmarks sz i = Inl IndexError"
  by (simp add: get_xy_def get_item_def bind_err_def)

lemma estimate_in_range:
  assumes "28 < length landmarks"
  shows "estimate_body_measurements landmarks sz =
     Inr \<lparr>shoulder_width = euclidean_distance (pixel_point landmarks sz 11) (pixel_point landmarks sz 12),
          hip_width = euclidean_distance (pixel_point landmarks sz 23) (pixel_point landmarks sz 24),
          height = euclidean_distance
             (midpoint2 (pixel_point landmarks sz 11) (pixel_point landmarks sz 12))
             (midpoint2 (pixel_point landmarks sz 27) (pixel_point landmarks sz 28))\<rparr>"
proof -
  have r: "get_xy landmarks sz 11 = Inr (pixel_point landmarks sz 11)"
    "get_xy landmarks sz 12 = Inr (pixel_point landmarks sz 12)"
    "get_xy landmarks sz 23 = Inr (pixel_point landmarks sz 23)"
    "get_xy landmarks sz 24 = Inr (pixel_point landmarks sz 24)"
    "get_xy landmarks sz 27 = Inr (pixel_point landmarks sz 27)"
    "get_xy landmarks sz 28 = Inr (pixel_point landmarks sz 28)"
    using assms by (simp_all add: get_xy_in_range)
  show ?thesis
    unfolding estimate_body_measurements_def r
    by (simp add: bind_err_def Let_def linalg_norm_def array_sub_def
        euclidean_distance_def midpoint2_def)
qed

lemma sqrt_200: "sqrt 40000 = 200"
  by (rule real_sqrt_unique) simp_all

lemma sqrt_600: "sqrt 360000 = 600"
  by (rule real_sqrt_unique) simp_all

text \<open>
  C3. For a 33-element pose-landmark sequence and an image size (w, h), the estimator
  returns the shoulder width as the Euclidean distance of the pixel points of landmarks 11
  and 12, the hip width as that of landmarks 23 and 24, and the height as the distance of
  the shoulder midpoint and the midpoint of landmarks 27 and 28. In particular shoulders at
  (0.4,0.3)/(0.6,0.3) and ankles at (0.45,0.9)/(0.55,0.9) on a 1000 x 1000 image give
  shoulder width 200 and height 600.
\<close>

theorem estimate_body_measurements_distances:
  assumes "length landmarks = 33"
  shows "estimate_body_measurements landmarks (w, h) =
     Inr \<lparr>shoulder_width = euclidean_distance (pixel_point landmarks (w, h) 11) (pixel_point landmarks (w, h) 12),
          hip_width = euclidean_distance (pixel_point landmarks (w, h) 23) (pixel_point landmarks (w, h) 24),
          height = euclidean_distance
             (midpoint2 (pixel_point landmarks (w, h) 11) (pixel_point landmarks (w, h) 12))
             (midpoint2 (pixel_point landmarks (w, h) 27) (pixel_point landmarks (w, h) 28))\<rparr>
   \<and> (landmarks ! 11 = \<lparr>lm_x = 0.4, lm_y = 0.3\<rparr> \<and> landmarks ! 12 = \<lparr>lm_x = 0.6, lm_y = 0.3\<rparr> \<and>
      landmarks ! 27 = \<lparr>lm_x = 0.45, lm_y = 0.9\<rparr> \<and> landmarks ! 28 = \<lparr>lm_x = 0.55, lm_y = 0.9\<rparr> \<longrightarrow>
      (\<exists>m. estimate_body_measurements landmarks (1000, 1000) = Inr m \<and>
           shoulder_width m = 200 \<and> height m = 600))"
proof (intro conjI impI)
  show "estimate_body_measurements landmarks (w, h) =
     Inr \<lparr>shoulder_width = euclidean_distance (pixel_point landmarks (w, h) 11) (pixel_point landmarks (w, h) 12),
          hip_width = euclidean_distance (pixel_point landmarks (w, h) 23) (pixel_point landmarks (w, h) 24),
          height = euclidean_distance
             (midpoint2 (pixel_point landmarks (w, h) 11) (pixel_point landmarks (w, h) 12))
             (midpoint2 (pixel_point landmarks (w, h) 27) (pixel_point landmarks (w, h) 28))\<rparr>"
    using assms by (intro estimate_in_range) simp
next
  assume a: "landmarks ! 11 = \<lparr>lm_x = 0.4, lm_y = 0.3\<rparr> \<and> landmarks ! 12 = \<lparr>lm_x = 0.6, lm_y = 0.3\<rparr> \<and>
      landmarks ! 27 = \<lparr>lm_x = 0.45, lm_y = 0.9\<rparr> \<and> landmarks ! 28 = \<lparr>lm_x = 0.55, lm_y = 0.9\<rparr>"
  have "28 < length landmarks" using assms by simp
  from estimate_in_range [OF this, of "(1000, 1000)"] a
  show "\<exists>m. estimate_body_measurements landmarks (1000, 1000) = Inr m \<and>
           shoulder_width m = 200 \<and> height m = 600"
    by (simp add: pixel_point_def euclidean_distance_def midpoint2_def sqrt_200 sqrt_600)
qed

lemma synthetic_pose_length: "length synthetic_pose = 33"
  by (simp add: synthetic_pose_def)

lemma synthetic_pose_joints:
  "synthetic_pose ! 11 = \<lparr>lm_x = 0.4, lm_y = 0.3\<rparr>"
  "synthetic_pose ! 12 = \<lparr>lm_x = 0.6, lm_y = 0.3\<rparr>"
  "synthetic_pose ! 27 = \<lparr>lm_x = 0.45, lm_y = 0.9\<rparr>"
  "synthetic_pose ! 28 = \<lparr>lm_x = 0.55, lm_y = 0.9\<rparr>"
  by (simp_all add: synthetic_pose_def nth_append)

theorem estimate_body_measurements_distances_witness:
  "length synthetic_pose = 33 \<and>
   (\<exists>m. estimate_body_measurements synthetic_pose (1000, 1000) = Inr m \<and>
        shoulder_width m = 200 \<and> height m = 600)"
proof -
  note c = estimate_body_measurements_distances [OF synthetic_pose_length, of 1000 1000]
  have "\<exists>m. estimate_body_measurements synthetic_pose (1000, 1000) = Inr m \<and>
        shoulder_width m = 200 \<and> height m = 600"
    by (rule mp [OF conjunct2 [OF c]]) (simp only: synthetic_pose_joints simp_thms)
  then show ?thesis using synthetic_pose_length by blast
qed

text \<open>
  C7. A pose-landmark sequence of fewer than 29 elements makes the estimator fail with
  IndexError (the specification's IndexOutOfRange): one of the joints 11, 12, 23, 24, 27,
  28 is out of range, and no result is returned.
\<close>

theorem estimate_body_measurements_short:
  assumes "length landmarks < 29"
  shows "estimate_body_measurements landmarks image_size = Inl IndexError"
proof -
  have last: "get_xy landmarks image_size 28 = Inl IndexError"
    using assms by (simp add: get_xy_out_of_range)
  have each: "\<And>i. get_xy landmarks image_size i = Inl IndexError \<or>
      (\<exists>p. get_xy landmarks image_size i = Inr p)"
    by (simp add: get_xy_def get_item_def bind_err_def)
  show ?thesis
    using each [of 11] each [of 12] each [of 23] each [of 24] each [of 27] last
    unfolding estimate_body_measurements_def
    by (auto simp: bind_err_def Let_def)
qed

theorem estimate_body_measurements_short_witness:
  "length (replicate 28 \<lparr>lm_x = 0.5, lm_y = 0.5\<rparr>) < 29 \<and>
   estimate_body_measurements (replicate 28 \<lparr>lm_x = 0.5, lm_y = 0.5\<rparr>) (640, 480) = Inl IndexError"
  using estimate_body_measurements_short [of "replicate 28 \<lparr>lm_x = 0.5, lm_y = 0.5\<rparr>" "(640, 480)"]
  by simp

section \<open>Properties of the texture compositor\<close>

lemma alloc_simps:
  "fst (alloc im s) = fresh s"
  "fresh (snd (alloc im s)) = Suc (fresh s)"
  "cell (snd (alloc im s)) a = (if a = fresh s then im else cell s a)"
  by (simp_all add: alloc_def)

lemma mutate_simps:
  "fresh (mutate a f s) = fresh s"
  "cell (mutate a f s) b = (if b = a then f (cell s a) else cell s b)"
  by (simp_all add: mutate_def)

lemma overlay_face_fresh: "fresh (overlay_face lib ph t s) = fresh s"
  by (simp add: overlay_face_def Let_def mutate_simps split: option.splits sum.splits)

lemma paint_eyes_other: "a \<noteq> d \<Longrightarrow> cell (paint_eyes lib e d s) a = cell s a"
  by (simp add: paint_eyes_def Let_def mutate_simps split: option.splits)

text \<open>
  When an outfit is found and decoded, the saved texture is the composite of the outfit over
  the base with the face: the eye colour does not occur in it, because the ellipses are
  drawn on the object of line 57 and \<open>texture_img\<close> names a later object.
\<close>

lemma texture_image_under_outfit:
  assumes "find_outfit md g files = Some path" "open_outfit lib files path = Some clothing"
  shows "texture_image lib md g ph eye files =
     image_convert (alpha_composite lib (image_convert (base_with_face lib ph) RGBA) clothing) RGB"
  using assms
  by (simp add: texture_image_def compose_texture_def overlay_outfit_def base_with_face_def
      alloc_def empty_store_def Let_def overlay_face_fresh paint_eyes_other split: prod.splits)

lemma texture_image_without_outfit:
  assumes "find_outfit md g files = None"
  shows "texture_image lib md g ph eye files =
     cell (paint_eyes lib eye 0 (overlay_face lib ph 0
            (snd (alloc (Image_new RGB (texture_size, texture_size) (opaque (10, 10, 10))) empty_store)))) 0"
  using assms
  by (simp add: texture_image_def compose_texture_def overlay_outfit_def
      alloc_def empty_store_def Let_def split: prod.splits)

lemma find_outfit_neutral: "find_outfit md ''neutral'' files = None"
  by (simp add: find_outfit_def)

lemma find_outfit_wardrobe:
  "find_outfit ''ml'' ''male'' wardrobe = Some ''ml/fashion_assets/male_outfit.png''"
  by (simp add: find_outfit_def path_join_def wardrobe_def)

lemma open_outfit_wardrobe:
  "open_outfit demo_lib wardrobe ''ml/fashion_assets/male_outfit.png'' =
     Some \<lparr>im_mode = RGBA, im_width = 512, im_height = 512, im_pixel = (\<lambda>x y. (200, 0, 0, 255))\<rparr>"
  by (simp add: open_outfit_def wardrobe_def demo_lib_def nearest_resize_def texture_size_def
      image_convert_def red_outfit_def Image_new_def)

lemma eye_geometry:
  "py_int (real_of_int texture_size * 0.43) = 220"
  "py_int (real_of_int texture_size * 0.57) = 291"
  "py_int (real_of_int texture_size * 0.32) = 163"
  "py_int (real_of_int texture_size * 0.03) = 15"
  by (simp_all add: py_int_def texture_size_def)

lemma eye_geometry_numerals:
  "py_int (5504 / 25) = 220" "py_int (7296 / 25) = 291" "py_int (4096 / 25) = 163" "py_int (384 / 25) = 15"
  by (simp_all add: py_int_def)

lemma base_without_face: "base_with_face lib None = Image_new RGB (512, 512) (10, 10, 10, 255)"
  by (simp add: base_with_face_def overlay_face_def alloc_def empty_store_def texture_size_def opaque_def)

lemma no_detection_no_paste: "overlay_face lib (Some (p\<lparr>face_detection := Some []\<rparr>)) t s = s"
  by (simp add: overlay_face_def detect_faces_def split: option.splits)

text \<open>
  C1. With an outfit overlay applied and an eye colour supplied, the specification has the
  eye circles on top of the outfit in the saved texture. The run below has an opaque red outfit
  for "male" and eye colour (0,0,255): the pixel at the centre of the left eye, which the
  ellipse covers, is the outfit's red in the saved texture. Without an outfit (gender
  "neutral") the same pixel has the eye colour.
\<close>

theorem eyes_missing_under_outfit:
  "im_pixel (texture_image demo_lib ''ml'' ''male'' None (Some (0, 0, 255)) wardrobe) 220 163 = (200, 0, 0, 255)
   \<and> in_ellipse demo_lib (220 - 15, 163 - 15, 220 + 15, 163 + 15) 220 163
   \<and> im_pixel (texture_image demo_lib ''ml'' ''neutral'' None (Some (0, 0, 255)) wardrobe) 220 163 = (0, 0, 255, 255)"
proof (intro conjI)
  show "im_pixel (texture_image demo_lib ''ml'' ''male'' None (Some (0, 0, 255)) wardrobe) 220 163 = (200, 0, 0, 255)"
    unfolding texture_image_under_outfit [OF find_outfit_wardrobe open_outfit_wardrobe]
    by (simp add: base_without_face image_convert_def alpha_composite_def Image_new_def
        demo_lib_def source_over_def)
  show "in_ellipse demo_lib (220 - 15, 163 - 15, 220 + 15, 163 + 15) 220 163"
    by (simp add: demo_lib_def disc_def)
  show "im_pixel (texture_image demo_lib ''ml'' ''neutral'' None (Some (0, 0, 255)) wardrobe) 220 163 = (0, 0, 255, 255)"
    unfolding texture_image_without_outfit [OF find_outfit_neutral]
    by (simp add: paint_eyes_def eye_geometry_numerals
        Let_def mutate_simps overlay_face_def alloc_simps empty_store_def draw_ellipse_def demo_lib_def
        disc_def inside_def Image_new_def texture_size_def opaque_def)
qed

text \<open>
  C2. With gender "neutral", a photograph in which no face is detected and no eye colour,
  every pixel of the texture is the constant (10,10,10) that line 55 forces, whatever the
  library, the files and the skin colour of the user are; it is not the default skin tone
  (198,134,66). The compositor takes no skin colour at all.
\<close>

theorem texture_fill_is_forced_constant:
  "im_pixel (texture_image lib md ''neutral'' (Some (p\<lparr>face_detection := Some []\<rparr>)) None files) x y = (10, 10, 10, 255)
   \<and> im_pixel (texture_image lib md ''neutral'' (Some (p\<lparr>face_detection := Some []\<rparr>)) None files) x y \<noteq> opaque (198, 134, 66)"
  by (simp add: texture_image_without_outfit [OF find_outfit_neutral] no_detection_no_paste
      paint_eyes_def alloc_simps empty_store_def Image_new_def opaque_def)

section \<open>Properties of the colour sampler\<close>

lemma extract_face_landmarks_None_iff:
  "extract_face_landmarks p = None \<longleftrightarrow>
     pil_image p = None \<or> face_mesh p = None \<or>
     (face_mesh p = Some [] \<and> (face_detection p = None \<or> face_detection p = Some []))"
  by (auto simp: extract_face_landmarks_def split: option.splits list.splits prod.splits)

text \<open>
  C6. When face-landmark extraction yields nothing (neither the dense mesh nor the
  bounding-box tier gives landmarks), the skin colour is exactly (198,134,66) and the eye
  colour is absent.
\<close>

theorem no_face_evidence_defaults:
  assumes "extract_face_landmarks p = None"
  shows "extract_skin_color p = Inr (Some (198, 134, 66)) \<and> extract_eye_color p = Inr None"
  using assms by (simp add: extract_skin_color_def extract_eye_color_def)

theorem no_face_evidence_defaults_witness:
  "extract_face_landmarks faceless_photo = None \<and>
   extract_skin_color faceless_photo = Inr (Some (198, 134, 66)) \<and>
   extract_eye_color faceless_photo = Inr None"
proof -
  have h: "extract_face_landmarks faceless_photo = None"
    by (simp add: extract_face_landmarks_def faceless_photo_def)
  from no_face_evidence_defaults [OF h] h show ?thesis by simp
qed

section \<open>Properties of the debug artefact paths\<close>

lemma faceless_photo_fields:
  "pil_image faceless_photo = Some (Image_new RGB (4, 4) (90, 90, 90, 255))"
  "pose_landmarks faceless_photo = Some synthetic_pose"
  by (simp_all add: faceless_photo_def)

text \<open>
  C9. For \<open>photo.jpg\<close> and \<open>photo.jpeg\<close> the body-mask path carries the suffix twice:
  the replacement for \<open>.jpg\<close> ends in \<open>.png\<close>, which the third \<open>replace\<close> of the chain
  rewrites again. For \<open>photo.png\<close>, and for the measurements dump, the suffix appears
  once. The mask of \<open>photo.jpg\<close> is written to \<open>photo_bodymask_bodymask.png\<close>, and no file
  \<open>photo_bodymask.png\<close> exists afterwards.
\<close>

theorem bodymask_suffix_doubled:
  "bodymask_path ''photo.jpg'' = ''photo_bodymask_bodymask.png'' \<and>
   bodymask_path ''photo.jpeg'' = ''photo_bodymask_bodymask.png'' \<and>
   bodymask_path ''photo.png'' = ''photo_bodymask.png'' \<and>
   measurements_path ''photo.jpg'' = ''photo_measurements.txt'' \<and>
   snd (extract_body_shape (\<lambda>path. True) faceless_photo ''photo.jpg'' True Map.empty) ''photo_bodymask.png'' = None \<and>
   snd (extract_body_shape (\<lambda>path. True) faceless_photo ''photo.jpg'' True Map.empty) ''photo_bodymask_bodymask.png''
     = Some (Picture (segmentation_mask faceless_photo))"
proof -
  have "28 < length synthetic_pose" by (simp add: synthetic_pose_length)
  from estimate_in_range [OF this, of "(4, 4)"]
  obtain m where m: "estimate_body_measurements synthetic_pose (4, 4) = Inr m" by blast
  have sz: "im_size (Image_new RGB (4, 4) (90, 90, 90, 255)) = (4, 4)"
    by (simp add: im_size_def Image_new_def)
  have paths: "bodymask_path ''photo.jpg'' = ''photo_bodymask_bodymask.png''"
    "bodymask_path ''photo.jpeg'' = ''photo_bodymask_bodymask.png''"
    "bodymask_path ''photo.png'' = ''photo_bodymask.png''"
    "measurements_path ''photo.jpg'' = ''photo_measurements.txt''"
    by (simp_all add: bodymask_path_def measurements_path_def)
  have files: "snd (extract_body_shape (\<lambda>path. True) faceless_photo ''photo.jpg'' True Map.empty) =
      [''photo_bodymask_bodymask.png'' \<mapsto> Picture (segmentation_mask faceless_photo),
       ''photo_measurements.txt'' \<mapsto> Report m]"
    by (simp add: extract_body_shape_def faceless_photo_fields sz m paths Let_def)
  show ?thesis
    unfolding files by (simp add: paths)
qed

section \<open>Properties of the planar UV assignment\<close>

lemma fold_min_const: "\<forall>x\<in>set xs. x = c \<Longrightarrow> fold min xs c = (c::real)"
  by (induction xs) simp_all

lemma fold_max_const: "\<forall>x\<in>set xs. x = c \<Longrightarrow> fold max xs c = (c::real)"
  by (induction xs) simp_all

lemma array_min_const: "xs \<noteq> [] \<Longrightarrow> \<forall>x\<in>set xs. x = c \<Longrightarrow> array_min xs = Inr c"
  by (cases xs) (simp_all add: array_min_def fold_min_const)

lemma array_max_const: "xs \<noteq> [] \<Longrightarrow> \<forall>x\<in>set xs. x = c \<Longrightarrow> array_max xs = Inr c"
  by (cases xs) (simp_all add: array_max_def fold_max_const)

lemma array_min_nonempty: "xs \<noteq> [] \<Longrightarrow> \<exists>m. array_min xs = Inr m"
  by (cases xs) (simp_all add: array_min_def)

lemma array_max_nonempty: "xs \<noteq> [] \<Longrightarrow> \<exists>m. array_max xs = Inr m"
  by (cases xs) (simp_all add: array_max_def)

lemma planar_uv_nonempty:
  assumes "vertices \<noteq> []"
  shows "\<exists>x_min x_max y_min y_max.
     array_min (map fst vertices) = Inr x_min \<and> array_max (map fst vertices) = Inr x_max \<and>
     array_min (map (fst \<circ> snd) vertices) = Inr y_min \<and> array_max (map (fst \<circ> snd) vertices) = Inr y_max \<and>
     planar_uv vertices =
       Inr (map (\<lambda>v. (np_divide (fst v - x_min) (x_max - x_min),
                       np_divide (fst (snd v) - y_min) (y_max - y_min))) vertices)"
proof -
  from assms have ne: "map fst vertices \<noteq> []" "map (fst \<circ> snd) vertices \<noteq> []" by simp_all
  obtain a where a: "array_min (map fst vertices) = Inr a" using array_min_nonempty [OF ne(1)] by blast
  obtain b where b: "array_max (map fst vertices) = Inr b" using array_max_nonempty [OF ne(1)] by blast
  obtain c where c: "array_min (map (fst \<circ> snd) vertices) = Inr c" using array_min_nonempty [OF ne(2)] by blast
  obtain d where d: "array_max (map (fst \<circ> snd) vertices) = Inr d" using array_max_nonempty [OF ne(2)] by blast
  show ?thesis
    unfolding planar_uv_def Let_def a b c d by (simp add: bind_err_def)
qed

text \<open>
  C4, as the code has it. For a non-empty vertex set the UV assignment raises nothing and
  gives one pair per vertex. There is no guard on the denominator: when all x coordinates
  are equal the u coordinate of every vertex is NaN, and when all y coordinates are equal
  the v coordinate of every vertex is NaN.
\<close>

theorem planar_uv_degenerate_is_nan:
  assumes "vertices \<noteq> []"
  shows "\<exists>uv. planar_uv vertices = Inr uv \<and> length uv = length vertices \<and>
     ((\<forall>v\<in>set vertices. fst v = cx) \<longrightarrow> (\<forall>p\<in>set uv. fst p = NaN)) \<and>
     ((\<forall>v\<in>set vertices. fst (snd v) = cy) \<longrightarrow> (\<forall>p\<in>set uv. snd p = NaN))"
proof -
  from planar_uv_nonempty [OF assms] obtain x_min x_max y_min y_max where
    xm: "array_min (map fst vertices) = Inr x_min" and xM: "array_max (map fst vertices) = Inr x_max" and
    ym: "array_min (map (fst \<circ> snd) vertices) = Inr y_min" and yM: "array_max (map (fst \<circ> snd) vertices) = Inr y_max" and
    uv: "planar_uv vertices =
       Inr (map (\<lambda>v. (np_divide (fst v - x_min) (x_max - x_min),
                       np_divide (fst (snd v) - y_min) (y_max - y_min))) vertices)"
    by blast
  define uvl where "uvl = map (\<lambda>v. (np_divide (fst v - x_min) (x_max - x_min),
                       np_divide (fst (snd v) - y_min) (y_max - y_min))) vertices"
  have res: "planar_uv vertices = Inr uvl" and len: "length uvl = length vertices"
    by (simp_all add: uv uvl_def)
  have x: "\<forall>p\<in>set uvl. fst p = NaN" if h: "\<forall>v\<in>set vertices. fst v = cx"
  proof -
    from h have all: "\<forall>x\<in>set (map fst vertices). x = cx" by simp
    from assms have ne: "map fst vertices \<noteq> []" by simp
    have "x_min = cx" "x_max = cx"
      using array_min_const [OF ne all] array_max_const [OF ne all] xm xM by simp_all
    with h show ?thesis by (simp add: np_divide_def uvl_def)
  qed
  have y: "\<forall>p\<in>set uvl. snd p = NaN" if h: "\<forall>v\<in>set vertices. fst (snd v) = cy"
  proof -
    from h have all: "\<forall>x\<in>set (map (fst \<circ> snd) vertices). x = cy" by simp
    from assms have ne: "map (fst \<circ> snd) vertices \<noteq> []" by simp
    have "y_min = cy" "y_max = cy"
      using array_min_const [OF ne all] array_max_const [OF ne all] ym yM by simp_all
    with h show ?thesis by (simp add: np_divide_def uvl_def)
  qed
  from res len x y show ?thesis by blast
qed

theorem planar_uv_degenerate_is_nan_witness:
  "flat_vertices \<noteq> [] \<and> list_all (\<lambda>v. fst v = 1) flat_vertices \<and>
   (\<exists>uv. planar_uv flat_vertices = Inr uv \<and> length uv = 3 \<and> list_all (\<lambda>p. fst p = NaN) uv)"
proof -
  have ne: "flat_vertices \<noteq> []" by (simp add: flat_vertices_def)
  have all: "\<forall>v\<in>set flat_vertices. fst v = 1" by (simp add: flat_vertices_def)
  from planar_uv_degenerate_is_nan [OF ne, of 1 0] all
  obtain uv where "planar_uv flat_vertices = Inr uv" "length uv = length flat_vertices" "\<forall>p\<in>set uv. fst p = NaN"
    by blast
  then show ?thesis using ne all by (auto simp: list_all_iff flat_vertices_def)
qed

text \<open>
  C4, as the specification states it: a zero denominator treated as 1 would give u = 0 for
  the three vertices in the plane x = 1. The code gives NaN there, so it differs from the
  guarded assignment.
\<close>

theorem planar_uv_unguarded:
  "planar_uv flat_vertices = Inr [(NaN, Num 0), (NaN, Num (1 / 2)), (NaN, Num 1)] \<and>
   guarded_planar_uv flat_vertices = Inr [(Num 0, Num 0), (Num 0, Num (1 / 2)), (Num 0, Num 1)] \<and>
   planar_uv flat_vertices \<noteq> guarded_planar_uv flat_vertices"
  by (simp add: planar_uv_def guarded_planar_uv_def flat_vertices_def array_min_def array_max_def
      bind_err_def np_divide_def guarded_divide_def Let_def)

section \<open>Properties of the mesh assembly\<close>

text \<open>
  C5. With skin colour (198,134,66) the vertex colours (198,134,66,255) are set on the colour
  visual of the mesh, and the assignment of line 142 then replaces that visual: the finished
  mesh has the texture visual with its UV coordinates and carries no vertex colours.
\<close>

theorem texture_visual_replaces_vertex_colors:
  "vertex_colors (set_vertex_colors (mesh_visual (Trimesh vertices faces))
       (replicate (length vertices) [198, 134, 66, 255])) = Some (replicate (length vertices) [198, 134, 66, 255]) \<and>
   mesh_visual (attach_visuals (Trimesh vertices faces) vertices (Some [198, 134, 66]) uv texture) = TextureVisuals uv texture \<and>
   vertex_colors (mesh_visual (attach_visuals (Trimesh vertices faces) vertices (Some [198, 134, 66]) uv texture)) = None"
  by (simp add: attach_visuals_def vertex_colors_def set_vertex_colors_def Trimesh_def Let_def)

section \<open>Properties of the path derivations\<close>










lemma glb_path_last: "last (stem @ ''.glb'') = CHR ''b''"
  by simp


section \<open>Properties of the export\<close>




lemma write_mesh_files_path:
  "fst (write_mesh_files w mesh mtl_name out_path files) =
     (if writable w (fst (splitext out_path) @ ''.glb'') \<and> export_glb w mesh
      then fst (splitext out_path) @ ''.glb'' else out_path)"
  by (simp add: write_mesh_files_def Let_def)



lemma write_mesh_files_unwritable:
  assumes "\<not> writable w out_path"
  shows "snd (write_mesh_files w mesh mtl_name out_path files) out_path = files out_path"
  using assms by (auto simp: write_mesh_files_def Let_def)

lemma fit_after_prepare:
  assumes "prepare_mesh w model_path gender out_path image_path skin_color eye_color files =
             (Inr (mesh, mtl_name), files1)"
  shows "fit_smplx_to_landmarks w landmarks model_path gender out_path image_path skin_color eye_color files =
     (Inr (fst (write_mesh_files w mesh mtl_name out_path files1)),
      snd (write_mesh_files w mesh mtl_name out_path files1))"
  using assms by (simp add: fit_smplx_to_landmarks_def split: prod.splits)


lemma demo_paths:
  "stale_outputs ''out/u_male_avatar.obj'' =
     [''out/u_male_avatar.obj'', ''out/u_male_avatar.mtl'', ''out/u_male_avatar.png'']"
  "str_replace ''out/u_male_avatar.obj'' ''_avatar.obj'' ''.png'' = ''out/u_male.png''"
  "str_replace ''out/u_male_avatar.obj'' ''.obj'' ''.mtl'' = ''out/u_male_avatar.mtl''"
  "splitext ''out/u_male_avatar.obj'' = (''out/u_male_avatar'', ''.obj'')"
  "splitext ''out/u_male.png'' = (''out/u_male'', ''.png'')"
  "basename ''out/u_male_avatar.mtl'' = ''u_male_avatar.mtl''"
  "basename ''out/u_male.png'' = ''u_male.png''"
  by (simp_all add: stale_outputs_def splitext_def basename_def dirname_def path_join_def)

lemma demo_uv_template:
  "\<exists>img. export_uv_template demo_lib wr triangle ''uv_template.png'' 512 wardrobe =
      (if wr ''uv_template.png'' then Inr (wardrobe(''uv_template.png'' \<mapsto> Picture img)) else Inl OSError)"
  by (auto simp: export_uv_template_def planar_uv_def triangle_def array_min_def array_max_def
      bind_err_def np_divide_def Let_def fval_int_def fval_scale_def fval_one_minus_def
      image_save_def demo_lib_def splitext_def basename_def)

lemma demo_prepare:
  "\<exists>mesh files1.
     prepare_mesh (demo_world obj_ok glb_ok) ''model.npz'' ''male'' ''out/u_male_avatar.obj'' None
        (Some [198, 134, 66]) (Some (0, 0, 255)) wardrobe = (Inr (mesh, ''u_male_avatar.mtl''), files1)
     \<and> files1 ''out/u_male_avatar.obj'' = None"
proof -
  obtain img where t: "export_uv_template demo_lib (writable (demo_world obj_ok glb_ok)) triangle
       ''uv_template.png'' 512 wardrobe = Inr (wardrobe(''uv_template.png'' \<mapsto> Picture img))"
    using demo_uv_template [of "writable (demo_world obj_ok glb_ok)"] by (auto simp: demo_world_def)
  have w: "pil_lib (demo_world obj_ok glb_ok) = demo_lib"
    "smplx_model (demo_world obj_ok glb_ok) ''model.npz'' ''male'' = Some (triangle, [(0, 1, 2)])"
    "module_dir (demo_world obj_ok glb_ok) = ''ml''"
    by (simp_all add: demo_world_def)
  have uv: "\<exists>uv. planar_uv triangle = Inr uv"
    by (simp add: planar_uv_def triangle_def array_min_def array_max_def bind_err_def Let_def)
  then obtain uv where uv: "planar_uv triangle = Inr uv" ..
  have wr: "writable (demo_world obj_ok glb_ok) ''out/u_male.png''"
     "writable (demo_world obj_ok glb_ok) ''out/u_male_avatar.mtl''"
    by (simp_all add: demo_world_def)
  have reg: "registered_extension demo_lib ''.png''" by (simp add: demo_lib_def)
  have look: "wardrobe ''out/u_male_avatar.obj'' = None" "wardrobe ''out/u_male_avatar.mtl'' = None"
    "wardrobe ''out/u_male_avatar.png'' = None" "wardrobe ''out/u_male.png'' = None"
    by (simp_all add: wardrobe_def)
  show ?thesis
    by (simp add: prepare_mesh_def w t demo_paths look Let_def save_texture_and_material_def
        image_save_def wr reg uv)
qed


text \<open>
  The mesh that reaches the exporters has the texture visual, whatever the skin colour is:
  its image is the composited texture, and it carries no vertex colours.
\<close>

lemma attach_visuals_visual:
  "mesh_visual (attach_visuals mesh vertices skin_color uv texture) = TextureVisuals uv texture"
  by (simp add: attach_visuals_def Let_def split: option.splits)

lemma prepare_mesh_visual:
  assumes "prepare_mesh w model_path gender out_path image_path skin_color eye_color files =
             (Inr (mesh, mtl_name), files1)"
  shows "\<exists>uv ph files0. mesh_visual mesh =
           TextureVisuals uv (texture_image (pil_lib w) (module_dir w) gender ph eye_color files0)"
    and "vertex_colors (mesh_visual mesh) = None"
proof -
  from assms obtain m vertices uv ph files0 where
    "mesh = attach_visuals m vertices skin_color uv
        (texture_image (pil_lib w) (module_dir w) gender ph eye_color files0)"
    by (auto simp: prepare_mesh_def Let_def split: option.splits prod.splits sum.splits)
  then have v: "mesh_visual mesh =
      TextureVisuals uv (texture_image (pil_lib w) (module_dir w) gender ph eye_color files0)"
    by (simp add: attach_visuals_visual)
  then show "\<exists>uv ph files0. mesh_visual mesh =
           TextureVisuals uv (texture_image (pil_lib w) (module_dir w) gender ph eye_color files0)"
    by blast
  from v show "vertex_colors (mesh_visual mesh) = None"
    by (simp add: vertex_colors_def)
qed











text \<open>
  C10. Once the stages before the mesh file have completed, the run returns a path whatever
  happens to the mesh file: the path of the binary scene when that export succeeds, and
  \<open>out_path\<close> otherwise. The returned path does not depend on whether the mesh file could be
  written; when it could not be opened, nothing is written at \<open>out_path\<close>.
\<close>

theorem obj_write_failure_is_swallowed:
  assumes "prepare_mesh w model_path gender out_path image_path skin_color eye_color files =
             (Inr (mesh, mtl_name), files1)"
  shows "fst (fit_smplx_to_landmarks w landmarks model_path gender out_path image_path skin_color eye_color files) =
           Inr (if writable w (fst (splitext out_path) @ ''.glb'') \<and> export_glb w mesh
                then fst (splitext out_path) @ ''.glb'' else out_path)
       \<and> (\<not> writable w out_path \<longrightarrow>
            snd (fit_smplx_to_landmarks w landmarks model_path gender out_path image_path skin_color eye_color files)
              out_path = files1 out_path)"
  unfolding fit_after_prepare [OF assms]
  by (simp add: write_mesh_files_path write_mesh_files_unwritable)

theorem obj_write_failure_is_swallowed_witness:
  "(\<exists>mesh files1.
      prepare_mesh (demo_world False False) ''model.npz'' ''male'' ''out/u_male_avatar.obj'' None
        (Some [198, 134, 66]) (Some (0, 0, 255)) wardrobe = (Inr (mesh, ''u_male_avatar.mtl''), files1)) \<and>
   \<not> writable (demo_world False False) ''out/u_male_avatar.obj'' \<and>
   fst (fit_smplx_to_landmarks (demo_world False False) [] ''model.npz'' ''male'' ''out/u_male_avatar.obj'' None
          (Some [198, 134, 66]) (Some (0, 0, 255)) wardrobe) = Inr ''out/u_male_avatar.obj'' \<and>
   snd (fit_smplx_to_landmarks (demo_world False False) [] ''model.npz'' ''male'' ''out/u_male_avatar.obj'' None
          (Some [198, 134, 66]) (Some (0, 0, 255)) wardrobe) ''out/u_male_avatar.obj'' = None"
proof -
  let ?w = "demo_world False False"
  from demo_prepare [of False False] obtain mesh files1 where
    prep: "prepare_mesh ?w ''model.npz'' ''male'' ''out/u_male_avatar.obj'' None
        (Some [198, 134, 66]) (Some (0, 0, 255)) wardrobe = (Inr (mesh, ''u_male_avatar.mtl''), files1)"
    and absent: "files1 ''out/u_male_avatar.obj'' = None"
    by blast
  have nw: "\<not> writable ?w ''out/u_male_avatar.obj''"
    by (simp add: demo_world_def)
  have glb: "\<not> export_glb ?w mesh"
    by (simp add: demo_world_def)
  from obj_write_failure_is_swallowed [OF prep, of "[]"] nw glb absent prep
  show ?thesis by auto
qed

end
